theory Spec2Isabelle
  imports Complex_Main
begin

unbundle bit_operations_syntax

section \<open>Bounds: IEEE doubles with infinities\<close>

text \<open>
  The entries of a half-matrix and the scratch buffer \<^verbatim>\<open>pr->tmp\<close> are C doubles.
  A double is modelled by its value class: a finite number, one of the two infinities, or
  NaN. Finite arithmetic is exact (rounding is not modelled); the infinities and NaN
  follow IEEE 754, which is what the predicates below rely on: a sum with \<^verbatim>\<open>INFINITY\<close>
  is \<^verbatim>\<open>INFINITY\<close> or NaN, and every ordered comparison with NaN is false.
\<close>

datatype dbl = Fin rat | PInf | MInf | NaN

fun dbl_add :: "dbl \<Rightarrow> dbl \<Rightarrow> dbl" where
  "dbl_add NaN y = NaN"
| "dbl_add x NaN = NaN"
| "dbl_add PInf MInf = NaN"
| "dbl_add MInf PInf = NaN"
| "dbl_add PInf y = PInf"
| "dbl_add x PInf = PInf"
| "dbl_add MInf y = MInf"
| "dbl_add x MInf = MInf"
| "dbl_add (Fin a) (Fin b) = Fin (a + b)"

fun dbl_twice :: "dbl \<Rightarrow> dbl" where
  "dbl_twice (Fin a) = Fin (2 * a)"
| "dbl_twice x = x"

fun dbl_half :: "dbl \<Rightarrow> dbl" where
  "dbl_half (Fin a) = Fin (a / 2)"
| "dbl_half x = x"

fun dbl_neg :: "dbl \<Rightarrow> dbl" where
  "dbl_neg (Fin a) = Fin (- a)"
| "dbl_neg PInf = MInf"
| "dbl_neg MInf = PInf"
| "dbl_neg NaN = NaN"

fun dbl_le :: "dbl \<Rightarrow> dbl \<Rightarrow> bool" where
  "dbl_le NaN y = False"
| "dbl_le x NaN = False"
| "dbl_le MInf y = True"
| "dbl_le x PInf = True"
| "dbl_le PInf y = False"
| "dbl_le x MInf = False"
| "dbl_le (Fin a) (Fin b) = (a \<le> b)"

fun dbl_lt :: "dbl \<Rightarrow> dbl \<Rightarrow> bool" where
  "dbl_lt NaN y = False"
| "dbl_lt x NaN = False"
| "dbl_lt PInf y = False"
| "dbl_lt x MInf = False"
| "dbl_lt MInf y = True"
| "dbl_lt x PInf = True"
| "dbl_lt (Fin a) (Fin b) = (a < b)"

text \<open>C's \<^verbatim>\<open>==\<close> on doubles: NaN is equal to nothing, itself included.\<close>

definition dbl_eq :: "dbl \<Rightarrow> dbl \<Rightarrow> bool" where
  "dbl_eq x y = (x \<noteq> NaN \<and> y \<noteq> NaN \<and> x = y)"

definition dbl_zero :: dbl where
  "dbl_zero = Fin 0"

section \<open>Scalars and intervals of the numerical library\<close>

text \<open>
  The caller-side types are opaque to the octagon code, which only builds intervals and
  compares their ends. An interval is the pair of its ends; the ends are scalars, which
  for this domain are doubles.
\<close>

record elina_interval_t =
  itv_inf :: dbl
  itv_sup :: dbl

text \<open>
  Modelled from the spec: \<^verbatim>\<open>elina_interval_set_top\<close> and \<^verbatim>\<open>elina_interval_set_bottom\<close>
  of the numerical library, which is not among the sources. Top is \<open>[-oo, +oo]\<close> (spec,
  scenario 1); bottom is the library's canonical empty interval, an interval whose lower
  end is above its upper end.
\<close>

definition elina_interval_set_top :: elina_interval_t where
  "elina_interval_set_top = \<lparr>itv_inf = MInf, itv_sup = PInf\<rparr>"

definition elina_interval_set_bottom :: elina_interval_t where
  "elina_interval_set_bottom = \<lparr>itv_inf = Fin 1, itv_sup = Fin (- 1)\<rparr>"

text \<open>
  Modelled from the spec: \<^verbatim>\<open>elina_scalar_cmp\<close> of the numerical library, a three-way
  comparison of two scalars (negative, zero or positive).
\<close>

definition elina_scalar_cmp :: "dbl \<Rightarrow> dbl \<Rightarrow> int" where
  "elina_scalar_cmp a b = (if dbl_lt b a then 1 else if dbl_lt a b then - 1 else 0)"

text \<open>
  Modelled from the spec: \<^verbatim>\<open>opt_interval_of_bounds\<close> (in opt_oct_internal.h, not among
  the sources). From the two stored bounds \<open>minf = m[2v, 2v+1]\<close> and \<open>sup = m[2v+1, 2v]\<close>
  it builds \<open>[-minf/2, sup/2]\<close> (spec, Bound projection: the division by 2 comes from
  the encoding \<open>X + X = 2X\<close>); without \<open>div2\<close> the bounds are taken as they are.
\<close>

definition opt_interval_of_bounds :: "dbl \<Rightarrow> dbl \<Rightarrow> bool \<Rightarrow> elina_interval_t" where
  "opt_interval_of_bounds minf sp div2 =
     \<lparr>itv_inf = dbl_neg (if div2 then dbl_half minf else minf),
      itv_sup = (if div2 then dbl_half sp else sp)\<rparr>"

section \<open>Half-matrices and octagon values\<close>

text \<open>
  A matrix \<^verbatim>\<open>opt_oct_mat_t\<close>: the buffer \<^verbatim>\<open>double *mat\<close>, the flag \<^verbatim>\<open>is_dense\<close> and the
  component partition \<^verbatim>\<open>acl\<close>. The buffer is a bare pointer with no length of its own, so
  it is the function from offsets to the doubles stored there. The partition is the list
  of its components in list order; a component \<^verbatim>\<open>comp_list_t\<close> is the list of the variable
  indices of its cells, and its \<^verbatim>\<open>size\<close> field is the length of that list.
\<close>

record opt_oct_mat_t =
  mat :: "nat \<Rightarrow> dbl"
  is_dense :: bool
  acl :: "nat list list"

text \<open>
  An octagon \<^verbatim>\<open>opt_oct_t\<close>: the two optional matrices (a null pointer is \<open>None\<close>) and the
  dimensions. Both matrices null is the bottom value.
\<close>

record opt_oct_t =
  o_m :: "opt_oct_mat_t option"
  o_closed :: "opt_oct_mat_t option"
  o_dim :: nat
  o_intdim :: nat

text \<open>
  Modelled from the spec: \<^verbatim>\<open>find\<close> and \<^verbatim>\<open>is_connected\<close> of the component partition
  (comp_list.h, not among the sources). \<open>find(partition, v)\<close> is the component containing
  \<open>v\<close>, or none; \<open>is_connected(partition, u, v)\<close> tells whether \<open>u\<close> and \<open>v\<close> share a
  component. \<^verbatim>\<open>to_sorted_array\<close> is the array of a component's members in increasing order.
\<close>

definition find_cl :: "nat list list \<Rightarrow> nat \<Rightarrow> nat list option" where
  "find_cl a v = List.find (\<lambda>cl. v \<in> set cl) a"

definition is_connected :: "nat list list \<Rightarrow> nat \<Rightarrow> nat \<Rightarrow> bool" where
  "is_connected a u v = list_ex (\<lambda>cl. u \<in> set cl \<and> v \<in> set cl) a"

definition to_sorted_array :: "nat list \<Rightarrow> nat \<Rightarrow> nat list" where
  "to_sorted_array cl n = sort cl"

section \<open>The manager and the kernels defined elsewhere\<close>

text \<open>
  What the predicates read of the manager: the option \<^verbatim>\<open>pr->funopt->algorithm\<close>, the
  compile-time constant \<^verbatim>\<open>num_incomplete\<close> and the conversion flag \<^verbatim>\<open>pr->conv\<close> as it
  stands when the result flags are set. What they write is \<^verbatim>\<open>man->result.flag_exact\<close>,
  which every function below returns next to its result.
\<close>

record manager =
  algorithm :: int
  num_incomplete :: bool
  conv :: bool

text \<open>
  Modelled from the spec: \<^verbatim>\<open>opt_oct_init_from_manager\<close> and the macros
  \<^verbatim>\<open>flag_incomplete\<close>, \<^verbatim>\<open>flag_algo\<close> and \<^verbatim>\<open>flag_conv\<close> (opt_oct_internal.h, not among the
  sources). The flags are reset at the entry of each operation (spec, Propagation), and
  an inexact result is signalled by \<open>flag_exact = false\<close> (spec, Error taxonomy).
\<close>

definition opt_oct_init_from_manager :: bool where
  "opt_oct_init_from_manager = True"

definition flag_incomplete :: "bool \<Rightarrow> bool" where
  "flag_incomplete fl = False"

definition flag_algo :: "bool \<Rightarrow> bool" where
  "flag_algo fl = flag_incomplete fl"

definition flag_conv :: "bool \<Rightarrow> bool" where
  "flag_conv fl = flag_incomplete fl"

text \<open>
  The kernels the predicates call and whose bodies are not among the sources are taken as
  parameters: the offset \<^verbatim>\<open>opt_matpos\<close> of a stored entry \<open>(i,j)\<close>, \<open>j \<le> i|1\<close>, in the buffer
  of a half-matrix, the strong closure \<^verbatim>\<open>opt_hmat_strong_closure\<close> (it returns whether the matrix
  is empty, and the closed matrix), the matrix comparisons \<^verbatim>\<open>is_lequal_half\<close> and
  \<^verbatim>\<open>is_equal_half\<close>, and the classification \<^verbatim>\<open>opt_oct_uexpr_of_linexpr\<close> of a linear
  expression (from the expression, \<open>intdim\<close> and \<open>dim\<close> it gives the shape and the two
  doubles it leaves in \<^verbatim>\<open>pr->tmp[0]\<close> and \<^verbatim>\<open>pr->tmp[1]\<close>).
\<close>

datatype opt_uexpr_type = OPT_EMPTY | OPT_ZERO | OPT_UNARY | OPT_BINARY | OPT_OTHER

record opt_uexpr =
  u_type :: opt_uexpr_type
  u_i :: nat
  u_j :: nat
  u_coef_i :: int
  u_coef_j :: int

record 'e kernels =
  opt_matpos :: "nat \<Rightarrow> nat \<Rightarrow> nat"
  opt_hmat_strong_closure :: "opt_oct_mat_t \<Rightarrow> nat \<Rightarrow> bool \<times> opt_oct_mat_t"
  is_lequal_half :: "opt_oct_mat_t \<Rightarrow> opt_oct_mat_t \<Rightarrow> nat \<Rightarrow> bool"
  is_equal_half :: "opt_oct_mat_t \<Rightarrow> opt_oct_mat_t \<Rightarrow> nat \<Rightarrow> bool"
  opt_oct_uexpr_of_linexpr :: "'e \<Rightarrow> nat \<Rightarrow> nat \<Rightarrow> opt_uexpr \<times> dbl \<times> dbl"

text \<open>
  Modelled from the spec: \<^verbatim>\<open>opt_matpos2\<close> (opt_oct_internal.h, not among the sources), the
  accessor for an arbitrary \<open>(i,j)\<close>. It returns \<open>matpos(i,j)\<close> if \<open>j \<le> i|1\<close>, otherwise the
  slot \<open>matpos(j^1, i^1)\<close> of the coherence partner (spec, Matrix Index).
\<close>

definition opt_matpos2 :: "'e kernels \<Rightarrow> nat \<Rightarrow> nat \<Rightarrow> nat" where
  "opt_matpos2 K i j =
     (if j \<le> (i OR 1) then opt_matpos K i j else opt_matpos K (j XOR 1) (i XOR 1))"

text \<open>
  Modelled from the spec: \<^verbatim>\<open>opt_oct_cache_closure\<close> (not among the sources). An operation
  that consumes a value may lazily close it: when no closed form is cached and the value
  is not bottom, the strong closure of a copy of \<open>m\<close> is computed; if it reports
  emptiness both matrices are nulled (spec, Closure kernels, Return), otherwise the
  closed copy is cached in \<open>closed\<close> (spec, Lifecycle).
\<close>

definition opt_oct_cache_closure :: "'e kernels \<Rightarrow> opt_oct_t \<Rightarrow> opt_oct_t" where
  "opt_oct_cache_closure K oc =
     (case o_closed oc of
        Some c \<Rightarrow> oc
      | None \<Rightarrow>
         (case o_m oc of
            None \<Rightarrow> oc
          | Some mm \<Rightarrow>
             (case opt_hmat_strong_closure K mm (o_dim oc) of
                (True, c) \<Rightarrow> oc\<lparr>o_m := None, o_closed := None\<rparr>
              | (False, c) \<Rightarrow> oc\<lparr>o_closed := Some c\<rparr>)))"

text \<open>The step \<^verbatim>\<open>if (pr->funopt->algorithm>=0) opt_oct_cache_closure(pr,o);\<close>\<close>

definition close_if_enabled :: "'e kernels \<Rightarrow> manager \<Rightarrow> opt_oct_t \<Rightarrow> opt_oct_t" where
  "close_if_enabled K man oc = (if algorithm man \<ge> 0 then opt_oct_cache_closure K oc else oc)"

text \<open>The selection \<^verbatim>\<open>o->closed ? o->closed : o->m\<close>; \<open>None\<close> is the null pointer.\<close>

definition closed_or_m :: "opt_oct_t \<Rightarrow> opt_oct_mat_t option" where
  "closed_or_m oc = (case o_closed oc of Some c \<Rightarrow> Some c | None \<Rightarrow> o_m oc)"

section \<open>The predicates of opt_oct_predicate.c\<close>

subsection \<open>Top\<close>

text \<open>\<^verbatim>\<open>check_trivial_relation\<close> (opt_oct_hmat.h), on the 2x2 block of the variables \<open>i\<close>, \<open>j\<close>.\<close>

definition check_trivial_relation :: "'e kernels \<Rightarrow> (nat \<Rightarrow> dbl) \<Rightarrow> nat \<Rightarrow> nat \<Rightarrow> bool" where
  "check_trivial_relation K b i j =
     (let ind1 = opt_matpos2 K (2 * i) (2 * j);
          ind2 = opt_matpos2 K (2 * i + 1) (2 * j + 1);
          ind3 = opt_matpos2 K (2 * i) (2 * j + 1);
          ind4 = opt_matpos2 K (2 * i + 1) (2 * j);
          crossed = (if b ind3 \<noteq> PInf then False
                     else if b ind4 \<noteq> PInf then False
                     else True)
      in if i = j then
           (if b ind1 \<noteq> Fin 0 then False
            else if b ind2 \<noteq> Fin 0 then False
            else crossed)
         else
           (if b ind1 \<noteq> PInf then False
            else if b ind2 \<noteq> PInf then False
            else crossed))"

text \<open>The trivial value of the entry \<open>(i,j)\<close>: 0 on the diagonal, \<open>+oo\<close> elsewhere.\<close>

definition trivial_entry :: "nat \<Rightarrow> nat \<Rightarrow> dbl" where
  "trivial_entry i j = (if i = j then Fin 0 else PInf)"

text \<open>
  Modelled from the spec: \<^verbatim>\<open>is_top_half\<close> (declared in opt_oct_hmat.h, its body is not
  among the sources). Spec, Lattice operations: is_top holds when the diagonal is all
  zero and the off-diagonal all \<open>+oo\<close>; in sparse mode an empty partition suffices. The
  half-matrix of \<open>n\<close> variables is the blocks of the pairs of variables \<open>(p, q)\<close> with
  \<open>q \<le> p < n\<close>, and the test of one block is \<^verbatim>\<open>check_trivial_relation\<close>. In a sparse matrix
  a stored entry is meaningful only if its two variables belong to the same component, and
  the constraints of the others are the trivial ones, implicitly (spec, Component
  partition): only the blocks inside a component are tested.
\<close>

definition is_top_half :: "'e kernels \<Rightarrow> opt_oct_mat_t \<Rightarrow> nat \<Rightarrow> bool" where
  "is_top_half K oo n =
     list_all
       (\<lambda>p. list_all
              (\<lambda>q. if is_dense oo \<or> is_connected (acl oo) p q
                    then check_trivial_relation K (mat oo) p q else True)
              [0..<Suc p])
       [0..<n]"

text \<open>\<^verbatim>\<open>opt_oct_is_top\<close>: the matrix looked at is \<open>m\<close> if present, else \<open>closed\<close>.\<close>

definition opt_oct_is_top :: "'e kernels \<Rightarrow> manager \<Rightarrow> opt_oct_t \<Rightarrow> bool" where
  "opt_oct_is_top K man oc =
     (case (case o_m oc of Some mm \<Rightarrow> Some mm | None \<Rightarrow> o_closed oc) of
        None \<Rightarrow> False
      | Some mm \<Rightarrow> is_top_half K mm (o_dim oc))"

subsection \<open>Inclusion and equality\<close>

text \<open>
  \<^verbatim>\<open>opt_oct_is_leq\<close> returns its result, the first operand as the call leaves it (the
  closure may have been cached on it) and \<open>flag_exact\<close>.
\<close>

definition opt_oct_is_leq ::
  "'e kernels \<Rightarrow> manager \<Rightarrow> opt_oct_t \<Rightarrow> opt_oct_t \<Rightarrow> bool \<times> opt_oct_t \<times> bool" where
  "opt_oct_is_leq K man o1 o2 =
     (let fl = opt_oct_init_from_manager in
      if o_dim o1 \<noteq> o_dim o2 \<or> o_intdim o1 \<noteq> o_intdim o2 then (False, o1, fl)
      else
        let o1' = close_if_enabled K man o1 in
        if o_closed o1' = None \<and> o_m o1' = None then (True, o1', fl)
        else if o_closed o2 = None \<and> o_m o2 = None then
          (if o_closed o1' \<noteq> None
           then (False, o1',
                 if num_incomplete man \<or> o_intdim o1' \<noteq> 0 then flag_incomplete fl else fl)
           else (False, o1', flag_algo fl))
        else
          (case (closed_or_m o1', closed_or_m o2) of
             (Some oo1, Some oo2) \<Rightarrow> (is_lequal_half K oo1 oo2 (o_dim o1'), o1', fl)
           | _ \<Rightarrow> (False, o1', fl)))"

text \<open>\<^verbatim>\<open>opt_oct_is_eq\<close> may cache the closure on both operands and returns both.\<close>

definition opt_oct_is_eq ::
  "'e kernels \<Rightarrow> manager \<Rightarrow> opt_oct_t \<Rightarrow> opt_oct_t \<Rightarrow> bool \<times> opt_oct_t \<times> opt_oct_t \<times> bool" where
  "opt_oct_is_eq K man o1 o2 =
     (let fl = opt_oct_init_from_manager in
      if o_dim o1 \<noteq> o_dim o2 \<or> o_intdim o1 \<noteq> o_intdim o2 then (False, o1, o2, fl)
      else
        let o1' = close_if_enabled K man o1;
            o2' = close_if_enabled K man o2
        in
        if o_closed o1' = None \<and> o_m o1' = None then
          (if o_closed o2' = None \<and> o_m o2' = None then (True, o1', o2', fl)
           else if o_closed o2' \<noteq> None
           then (False, o1', o2',
                 if num_incomplete man \<or> o_intdim o1' \<noteq> 0 then flag_incomplete fl else fl)
           else (False, o1', o2', flag_algo fl))
        else if o_closed o2' = None \<and> o_m o2' = None then
          (if o_closed o1' \<noteq> None
           then (False, o1', o2',
                 if num_incomplete man \<or> o_intdim o1' \<noteq> 0 then flag_incomplete fl else fl)
           else (False, o1', o2', flag_algo fl))
        else
          (case (closed_or_m o1', closed_or_m o2') of
             (Some oo1, Some oo2) \<Rightarrow> (is_equal_half K oo1 oo2 (o_dim o1'), o1', o2', fl)
           | _ \<Rightarrow> (False, o1', o2', fl)))"

subsection \<open>Projection on the variables\<close>

text \<open>
  The loops of \<^verbatim>\<open>opt_oct_to_box\<close> over a sparse matrix: the inner \<^verbatim>\<open>for\<close> walks the cells
  of one component and overwrites the interval of each member; the outer \<^verbatim>\<open>while\<close> walks
  the components. The array \<^verbatim>\<open>in\<close> has \<open>o->dim\<close> cells, and a member outside it would be
  written out of bounds: that is the result \<open>None\<close>.
\<close>

fun box_of_comp ::
  "'e kernels \<Rightarrow> (nat \<Rightarrow> dbl) \<Rightarrow> nat list \<Rightarrow> elina_interval_t list \<Rightarrow> elina_interval_t list option" where
  "box_of_comp K b [] box = Some box"
| "box_of_comp K b (i1 # c) box =
     (if i1 < length box
      then box_of_comp K b c
             (box[i1 := opt_interval_of_bounds (b (opt_matpos K (2 * i1) (2 * i1 + 1)))
                           (b (opt_matpos K (2 * i1 + 1) (2 * i1))) True])
      else None)"

fun box_of_acl ::
  "'e kernels \<Rightarrow> (nat \<Rightarrow> dbl) \<Rightarrow> nat list list \<Rightarrow> elina_interval_t list \<Rightarrow> elina_interval_t list option" where
  "box_of_acl K b [] box = Some box"
| "box_of_acl K b (cl # cls) box =
     (case box_of_comp K b cl box of
        None \<Rightarrow> None
      | Some box' \<Rightarrow> box_of_acl K b cls box')"

text \<open>The flags \<^verbatim>\<open>opt_oct_to_box\<close> sets on a non-empty octagon (lines 190 to 193).\<close>

definition to_box_flags :: "manager \<Rightarrow> opt_oct_t \<Rightarrow> bool" where
  "to_box_flags man oc =
     (let fl = False in
      if o_closed oc = None then flag_algo fl
      else if num_incomplete man \<or> o_intdim oc \<noteq> 0 then flag_incomplete fl
      else if conv man then flag_conv fl
      else fl)"

text \<open>
  \<^verbatim>\<open>opt_oct_to_box\<close> returns the array of intervals, the octagon as the call leaves it and
  \<open>flag_exact\<close>.
\<close>

definition opt_oct_to_box ::
  "'e kernels \<Rightarrow> manager \<Rightarrow> opt_oct_t \<Rightarrow> (elina_interval_t list \<times> opt_oct_t \<times> bool) option" where
  "opt_oct_to_box K man oc =
     (let fl = opt_oct_init_from_manager;
          oc' = close_if_enabled K man oc
      in case closed_or_m oc' of
           None \<Rightarrow> Some (map (\<lambda>i. elina_interval_set_bottom) [0..<o_dim oc'], oc', fl)
         | Some oo \<Rightarrow>
            (if \<not> is_dense oo then
               (case box_of_acl K (mat oo) (acl oo)
                       (map (\<lambda>i. elina_interval_set_top) [0..<o_dim oc']) of
                  None \<Rightarrow> None
                | Some box \<Rightarrow> Some (box, oc', to_box_flags man oc'))
             else
               Some (map (\<lambda>i. opt_interval_of_bounds (mat oo (opt_matpos K (2 * i) (2 * i + 1)))
                                 (mat oo (opt_matpos K (2 * i + 1) (2 * i))) True)
                       [0..<o_dim oc'],
                     oc', to_box_flags man oc')))"

text \<open>
  The interval read for one dimension from a matrix, as \<^verbatim>\<open>opt_oct_bound_dimension\<close> and
  \<^verbatim>\<open>opt_oct_sat_interval\<close> do: top for a variable of a sparse matrix that is in no
  component, the stored bounds otherwise.
\<close>

definition interval_of_dim :: "'e kernels \<Rightarrow> opt_oct_mat_t \<Rightarrow> nat \<Rightarrow> elina_interval_t" where
  "interval_of_dim K oo d =
     (if \<not> is_dense oo then
        (if find_cl (acl oo) d = None then elina_interval_set_top
         else opt_interval_of_bounds (mat oo (opt_matpos K (2 * d) (2 * d + 1)))
                (mat oo (opt_matpos K (2 * d + 1) (2 * d))) True)
      else opt_interval_of_bounds (mat oo (opt_matpos K (2 * d) (2 * d + 1)))
             (mat oo (opt_matpos K (2 * d + 1) (2 * d))) True)"

text \<open>
  \<^verbatim>\<open>opt_oct_bound_dimension\<close>: the interval (\<open>None\<close> is the \<^verbatim>\<open>NULL\<close> returned for a dimension
  out of range), the octagon as the call leaves it and \<open>flag_exact\<close>.
\<close>

definition opt_oct_bound_dimension ::
  "'e kernels \<Rightarrow> manager \<Rightarrow> opt_oct_t \<Rightarrow> nat \<Rightarrow> elina_interval_t option \<times> opt_oct_t \<times> bool" where
  "opt_oct_bound_dimension K man oc d =
     (let fl = opt_oct_init_from_manager in
      if d \<ge> o_dim oc then (None, oc, fl)
      else
        let oc' = close_if_enabled K man oc in
        if o_closed oc' = None \<and> o_m oc' = None then (Some elina_interval_set_bottom, oc', fl)
        else
          (case o_closed oc' of
             Some oo \<Rightarrow>
               (Some (interval_of_dim K oo d), oc',
                if num_incomplete man \<or> o_intdim oc' \<noteq> 0 then flag_incomplete fl
                else if conv man then flag_conv fl
                else fl)
           | None \<Rightarrow>
               (case o_m oc' of
                  Some oo \<Rightarrow> (Some (interval_of_dim K oo d), oc', flag_algo fl)
                | None \<Rightarrow> (Some elina_interval_set_bottom, oc', fl))))"

subsection \<open>Satisfaction of an interval, unconstrained dimensions\<close>

text \<open>The flags set when a constraint is not entailed (the same three lines each time).\<close>

definition not_sat_flags :: "manager \<Rightarrow> opt_oct_t \<Rightarrow> bool \<Rightarrow> bool" where
  "not_sat_flags man oc fl =
     (if num_incomplete man \<or> o_intdim oc \<noteq> 0 then flag_incomplete fl
      else if o_closed oc = None then flag_algo fl
      else if conv man then flag_conv fl
      else fl)"

definition opt_oct_sat_interval ::
  "'e kernels \<Rightarrow> manager \<Rightarrow> opt_oct_t \<Rightarrow> nat \<Rightarrow> elina_interval_t \<Rightarrow> bool \<times> opt_oct_t \<times> bool" where
  "opt_oct_sat_interval K man oc d i =
     (let fl = opt_oct_init_from_manager in
      if d \<ge> o_dim oc then (False, oc, fl)
      else
        let oc' = close_if_enabled K man oc in
        (case closed_or_m oc' of
           None \<Rightarrow> (True, oc', fl)
         | Some oo \<Rightarrow>
            (let b = interval_of_dim K oo d;
                 r = (elina_scalar_cmp (itv_inf b) (itv_inf i) \<ge> 0
                      \<and> elina_scalar_cmp (itv_sup b) (itv_sup i) \<le> 0)
             in if r then (True, oc', fl) else (False, oc', not_sat_flags man oc' fl))))"

text \<open>
  \<^verbatim>\<open>opt_oct_is_dimension_unconstrained\<close>. Each loop returns false at the first entry that is
  not \<open>+oo\<close> and the function returns true after the loop, so the result is the
  conjunction over the loop's range. No closure is cached and no flag is set.
\<close>

definition opt_oct_is_dimension_unconstrained :: "'e kernels \<Rightarrow> manager \<Rightarrow> opt_oct_t \<Rightarrow> nat \<Rightarrow> bool" where
  "opt_oct_is_dimension_unconstrained K man oc d =
     (if d \<ge> o_dim oc then False
      else
        (case closed_or_m oc of
           None \<Rightarrow> False
         | Some oo \<Rightarrow>
            (let b = mat oo; d2 = 2 * d in
             if \<not> is_dense oo then
               (case find_cl (acl oo) d of
                  None \<Rightarrow> True
                | Some cl \<Rightarrow>
                   list_all
                     (\<lambda>j1. if j1 = d
                            then \<not> (b (opt_matpos2 K d2 (d2 + 1)) \<noteq> PInf
                                    \<or> b (opt_matpos2 K (d2 + 1) d2) \<noteq> PInf)
                            else \<not> b (opt_matpos2 K (2 * j1) d2) \<noteq> PInf
                               \<and> \<not> b (opt_matpos2 K (2 * j1 + 1) d2) \<noteq> PInf
                               \<and> \<not> b (opt_matpos2 K (2 * j1) (d2 + 1)) \<noteq> PInf
                               \<and> \<not> b (opt_matpos2 K (2 * j1 + 1) (d2 + 1)) \<noteq> PInf)
                     (to_sorted_array cl (o_dim oc)))
             else
               list_all
                 (\<lambda>i. \<not> (b (opt_matpos2 K i d2) \<noteq> PInf \<and> i \<noteq> d2)
                     \<and> \<not> (b (opt_matpos2 K i (d2 + 1)) \<noteq> PInf \<and> i \<noteq> d2 + 1))
                 [0..<2 * o_dim oc])))"

subsection \<open>Satisfaction of a linear constraint\<close>

datatype elina_constyp_t =
  ELINA_CONS_EQ | ELINA_CONS_SUPEQ | ELINA_CONS_SUP | ELINA_CONS_EQMOD | ELINA_CONS_DISEQ

text \<open>
  A constraint \<^verbatim>\<open>elina_lincons0_t\<close>: its type and its linear expression, which only the
  classification kernel looks into.
\<close>

record 'e elina_lincons0_t =
  constyp :: elina_constyp_t
  linexpr0 :: 'e

text \<open>
  The test that ends the \<^verbatim>\<open>OPT_UNARY\<close> and \<^verbatim>\<open>OPT_BINARY\<close> cases, on the two sums left in
  \<^verbatim>\<open>pr->tmp[0]\<close> and \<^verbatim>\<open>pr->tmp[1]\<close>.
\<close>

definition bound_test :: "elina_constyp_t \<Rightarrow> dbl \<Rightarrow> dbl \<Rightarrow> bool" where
  "bound_test c t0 t1 =
     (dbl_le t0 dbl_zero
      \<and> (c \<noteq> ELINA_CONS_SUP \<or> dbl_lt t0 dbl_zero)
      \<and> (c \<noteq> ELINA_CONS_EQ \<or> dbl_le t1 dbl_zero))"

text \<open>
  \<^verbatim>\<open>opt_oct_sat_lincons\<close> takes the value of \<open>flag_exact\<close> at its entry and returns its
  result and the flag. Its first two statements read \<^verbatim>\<open>oo->mat\<close> for
  \<open>oo = o->closed ? o->closed : o->m\<close>: on the bottom octagon that is a null pointer, and
  the result is \<open>None\<close>.
\<close>

definition opt_oct_sat_lincons ::
  "'e kernels \<Rightarrow> manager \<Rightarrow> bool \<Rightarrow> opt_oct_t \<Rightarrow> 'e elina_lincons0_t \<Rightarrow> (bool \<times> bool) option" where
  "opt_oct_sat_lincons K man fl oc lincons =
     (case closed_or_m oc of
        None \<Rightarrow> None
      | Some oo \<Rightarrow>
         (let b = mat oo; c = constyp lincons in
          if c = ELINA_CONS_EQMOD \<or> c = ELINA_CONS_DISEQ then Some (False, fl)
          else
            (case opt_oct_uexpr_of_linexpr K (linexpr0 lincons) (o_intdim oc) (o_dim oc) of
               (u, tmp0, tmp1) \<Rightarrow>
                 (case u_type u of
                    OPT_EMPTY \<Rightarrow> Some (True, fl)
                  | OPT_ZERO \<Rightarrow>
                      (if (c = ELINA_CONS_SUPEQ \<and> dbl_le tmp0 dbl_zero)
                          \<or> (c = ELINA_CONS_SUP \<and> dbl_lt tmp0 dbl_zero)
                          \<or> (c = ELINA_CONS_EQ \<and> dbl_eq tmp0 dbl_zero \<and> dbl_eq tmp1 dbl_zero)
                       then Some (True, fl)
                       else Some (False, not_sat_flags man oc fl))
                  | OPT_UNARY \<Rightarrow>
                      (let ui = (if u_coef_i u = 1 then 2 * u_i u else 2 * u_i u + 1);
                           t0 = dbl_twice tmp0;
                           t1 = dbl_twice tmp1;
                           tmp =
                             (if \<not> is_dense oo \<and> find_cl (acl oo) (u_i u) = None
                              then (dbl_add t0 PInf, dbl_add t1 PInf)
                              else (dbl_add t0 (b (opt_matpos K ui (ui XOR 1))),
                                    dbl_add t1 (b (opt_matpos K (ui XOR 1) ui))))
                       in if bound_test c (fst tmp) (snd tmp) then Some (True, fl)
                          else Some (False, not_sat_flags man oc fl))
                  | OPT_BINARY \<Rightarrow>
                      (let ui = (if u_coef_i u = 1 then 2 * u_i u else 2 * u_i u + 1);
                           uj = (if u_coef_j u = 1 then 2 * u_j u else 2 * u_j u + 1);
                           tmp =
                             (if \<not> is_dense oo \<and> \<not> is_connected (acl oo) (u_i u) (u_j u)
                              then (dbl_add tmp0 PInf, dbl_add tmp1 PInf)
                              else (dbl_add tmp0 (b (opt_matpos2 K uj (ui XOR 1))),
                                    dbl_add tmp1 (b (opt_matpos2 K (uj XOR 1) ui))))
                       in if bound_test c (fst tmp) (snd tmp) then Some (True, fl)
                          else Some (False, not_sat_flags man oc fl))
                  | OPT_OTHER \<Rightarrow> Some (False, flag_incomplete fl)))))"

text \<open>
  \<^verbatim>\<open>opt_oct_sat_lincons_timing\<close>, the entry point: it caches the closure when the manager
  asks for it, answers true for the bottom octagon, and calls \<^verbatim>\<open>opt_oct_sat_lincons\<close>
  otherwise. It returns the result, the octagon as the call leaves it and \<open>flag_exact\<close>.
\<close>

definition opt_oct_sat_lincons_timing ::
  "'e kernels \<Rightarrow> manager \<Rightarrow> opt_oct_t \<Rightarrow> 'e elina_lincons0_t \<Rightarrow> (bool \<times> opt_oct_t \<times> bool) option" where
  "opt_oct_sat_lincons_timing K man oc lincons =
     (let fl = opt_oct_init_from_manager;
          oc' = close_if_enabled K man oc
      in if o_closed oc' = None \<and> o_m oc' = None then Some (True, oc', fl)
         else
           (case opt_oct_sat_lincons K man fl oc' lincons of
              None \<Rightarrow> None
            | Some (res, fl') \<Rightarrow> Some (res, oc', fl')))"

section \<open>Results of calls, and a small instance for worked examples\<close>

text \<open>
  A function that may fail and that returns its answer together with the state it leaves
  has the type \<open>('a \<times> 's) option\<close>; \<open>value_of\<close> is the answer alone.
\<close>

definition value_of :: "('a \<times> 's) option \<Rightarrow> 'a option" where
  "value_of r = map_option fst r"

text \<open>The value of \<open>flag_exact\<close> after a call that returns its answer, the octagon and the flag.\<close>

definition flag_exact_of :: "('a \<times> 's \<times> bool) option \<Rightarrow> bool option" where
  "flag_exact_of r = map_option (\<lambda>x. snd (snd x)) r"

text \<open>
  The worked examples use octagons over one variable. Their buffer stores the rows of the
  half-matrix one after the other, row \<open>i\<close> holding its \<open>(i|1)+1\<close> entries: the four entries
  \<open>(0,0)\<close>, \<open>(0,1)\<close>, \<open>(1,0)\<close>, \<open>(1,1)\<close> of a one-variable octagon are at the offsets 0 to 3.
  Over one variable the strong closure changes no entry, and the octagon is empty when the
  two bounds \<open>m[0,1]\<close> and \<open>m[1,0]\<close> have a negative sum. A linear expression is given by
  its classification.
\<close>

definition ex_matpos :: "nat \<Rightarrow> nat \<Rightarrow> nat" where
  "ex_matpos i j = j + (i + 1) * (i + 1) div 2"

definition ex_closure :: "opt_oct_mat_t \<Rightarrow> nat \<Rightarrow> bool \<times> opt_oct_mat_t" where
  "ex_closure mm n =
     (dbl_lt (dbl_add (mat mm (ex_matpos 0 1)) (mat mm (ex_matpos 1 0))) dbl_zero, mm)"

definition ex_kernels :: "(opt_uexpr \<times> dbl \<times> dbl) kernels" where
  "ex_kernels =
     \<lparr>opt_matpos = ex_matpos,
      opt_hmat_strong_closure = ex_closure,
      is_lequal_half = (\<lambda>m1 m2 n. False),
      is_equal_half = (\<lambda>m1 m2 n. False),
      opt_oct_uexpr_of_linexpr = (\<lambda>e intdim dim. e)\<rparr>"

text \<open>The buffer of the octagon \<open>-lo/2 \<le> X0 \<le> hi/2\<close>.\<close>

definition ex_buf :: "dbl \<Rightarrow> dbl \<Rightarrow> nat \<Rightarrow> dbl" where
  "ex_buf lo hi k =
     (if k = 0 \<or> k = 3 then Fin 0 else if k = 1 then lo else if k = 2 then hi else PInf)"

text \<open>The matrix of \<open>1 \<le> X0 \<le> 3\<close>, dense or sparse with the given partition.\<close>

definition ex_mat :: "bool \<Rightarrow> nat list list \<Rightarrow> opt_oct_mat_t" where
  "ex_mat dense comps = \<lparr>mat = ex_buf (Fin (- 2)) (Fin 6), is_dense = dense, acl = comps\<rparr>"

definition ex_oct :: "opt_oct_mat_t option \<Rightarrow> opt_oct_mat_t option \<Rightarrow> opt_oct_t" where
  "ex_oct mm cc = \<lparr>o_m = mm, o_closed = cc, o_dim = 1, o_intdim = 0\<rparr>"

definition ex_man :: "int \<Rightarrow> manager" where
  "ex_man alg = \<lparr>algorithm = alg, num_incomplete = False, conv = False\<rparr>"

text \<open>The constraint \<open>ci X0 + [-a, b] ~ 0\<close> of type \<open>c\<close>, and the constant one \<open>[-a, b] ~ 0\<close>.\<close>

definition ex_unary ::
  "elina_constyp_t \<Rightarrow> int \<Rightarrow> rat \<Rightarrow> rat \<Rightarrow> (opt_uexpr \<times> dbl \<times> dbl) elina_lincons0_t" where
  "ex_unary c ci a b =
     \<lparr>constyp = c,
      linexpr0 = (\<lparr>u_type = OPT_UNARY, u_i = 0, u_j = 0, u_coef_i = ci, u_coef_j = 0\<rparr>,
                  Fin a, Fin b)\<rparr>"

definition ex_zero ::
  "elina_constyp_t \<Rightarrow> rat \<Rightarrow> rat \<Rightarrow> (opt_uexpr \<times> dbl \<times> dbl) elina_lincons0_t" where
  "ex_zero c a b =
     \<lparr>constyp = c,
      linexpr0 = (\<lparr>u_type = OPT_ZERO, u_i = 0, u_j = 0, u_coef_i = 0, u_coef_j = 0\<rparr>,
                  Fin a, Fin b)\<rparr>"

section \<open>Properties\<close>

subsection \<open>Arithmetic with infinities, and the closure step\<close>

lemma dbl_add_PInf_not_le: "dbl_le (dbl_add x PInf) dbl_zero = False"
  by (cases x) (simp_all add: dbl_zero_def)

lemma dbl_add_PInf_not_lt: "dbl_lt (dbl_add x PInf) dbl_zero = False"
  by (cases x) (simp_all add: dbl_zero_def)

lemma dbl_lt_imp_le: "dbl_lt x y \<Longrightarrow> dbl_le x y"
  by (cases x; cases y) simp_all

lemma bound_test_eq:
  "bound_test c t0 t1 =
     ((if c = ELINA_CONS_SUP then dbl_lt t0 dbl_zero else dbl_le t0 dbl_zero)
      \<and> (c = ELINA_CONS_EQ \<longrightarrow> dbl_le t1 dbl_zero))"
  using dbl_lt_imp_le [of t0 dbl_zero] by (auto simp: bound_test_def)

lemma cache_closure_closed: "o_closed oc = Some c \<Longrightarrow> opt_oct_cache_closure K oc = oc"
  by (simp add: opt_oct_cache_closure_def)

lemma close_if_enabled_closed: "o_closed oc = Some c \<Longrightarrow> close_if_enabled K man oc = oc"
  by (simp add: close_if_enabled_def cache_closure_closed)

lemma close_if_enabled_dims [simp]:
  "o_dim (close_if_enabled K man oc) = o_dim oc"
  "o_intdim (close_if_enabled K man oc) = o_intdim oc"
  by (simp_all add: close_if_enabled_def opt_oct_cache_closure_def
      split: option.splits prod.splits bool.splits)

lemma closed_or_m_None: "closed_or_m oc = None \<longleftrightarrow> o_closed oc = None \<and> o_m oc = None"
  by (simp add: closed_or_m_def split: option.splits)

subsection \<open>Entailment of a linear constraint\<close>

lemma sat_lincons_timing_closed:
  "o_closed oc = Some c \<Longrightarrow>
   value_of (opt_oct_sat_lincons_timing K man oc lincons) =
   value_of (opt_oct_sat_lincons K man opt_oct_init_from_manager oc lincons)"
  by (simp add: value_of_def opt_oct_sat_lincons_timing_def close_if_enabled_closed Let_def
      split: option.splits)

lemma sat_lincons_timing_present:
  assumes "closed_or_m (close_if_enabled K man oc) \<noteq> None"
  shows "opt_oct_sat_lincons_timing K man oc lincons =
     map_option (\<lambda>(res, fl). (res, close_if_enabled K man oc, fl))
       (opt_oct_sat_lincons K man opt_oct_init_from_manager (close_if_enabled K man oc) lincons)"
  using assms
  by (auto simp: opt_oct_sat_lincons_timing_def Let_def closed_or_m_None
      split: option.splits)

lemma sat_lincons_unary_result:
  assumes "closed_or_m oc = Some oo"
    and "constyp lincons \<noteq> ELINA_CONS_EQMOD" and "constyp lincons \<noteq> ELINA_CONS_DISEQ"
    and "opt_oct_uexpr_of_linexpr K (linexpr0 lincons) (o_intdim oc) (o_dim oc) = (u, a, b)"
    and "u_type u = OPT_UNARY"
  shows "value_of (opt_oct_sat_lincons K man fl oc lincons) =
     Some (\<not> (\<not> is_dense oo \<and> find_cl (acl oo) (u_i u) = None)
       \<and> (let ui = (if u_coef_i u = 1 then 2 * u_i u else 2 * u_i u + 1);
              s0 = dbl_add (dbl_twice a) (mat oo (opt_matpos K ui (ui XOR 1)));
              s1 = dbl_add (dbl_twice b) (mat oo (opt_matpos K (ui XOR 1) ui))
          in (if constyp lincons = ELINA_CONS_SUP then dbl_lt s0 dbl_zero else dbl_le s0 dbl_zero)
             \<and> (constyp lincons = ELINA_CONS_EQ \<longrightarrow> dbl_le s1 dbl_zero)))"
  using assms
  by (simp add: value_of_def opt_oct_sat_lincons_def Let_def bound_test_eq
      dbl_add_PInf_not_le dbl_add_PInf_not_lt)

text \<open>
  C1. Let the octagon have its closed form \<open>oo\<close> cached, and let the constraint be of type
  \<open>>=\<close>, \<open>>\<close> or \<open>=\<close> and of unary shape \<open>c_i X_i + [-a, b]\<close>. With \<open>ui = 2i\<close> if \<open>c_i = 1\<close>
  and \<open>2i+1\<close> otherwise, \<^verbatim>\<open>sat_lincons\<close> (the entry point and the function it calls)
  answers true if and only if \<open>2a + m[ui, ui^1] \<le> 0\<close>, strictly below 0 for \<open>>\<close>, and for
  \<open>=\<close> also \<open>2b + m[ui^1, ui] \<le> 0\<close>. In a sparse matrix a variable in no component
  contributes \<open>+oo\<close> in place of the stored entries, and then the answer is false.
\<close>

theorem sat_lincons_unary:
  fixes K :: "'e kernels" and u :: opt_uexpr and oo :: opt_oct_mat_t
    and a b :: dbl and lincons :: "'e elina_lincons0_t"
  defines "ui \<equiv> (if u_coef_i u = 1 then 2 * u_i u else 2 * u_i u + 1)"
  defines "m0 \<equiv> (if \<not> is_dense oo \<and> find_cl (acl oo) (u_i u) = None then PInf
                  else mat oo (opt_matpos K ui (ui XOR 1)))"
  defines "m1 \<equiv> (if \<not> is_dense oo \<and> find_cl (acl oo) (u_i u) = None then PInf
                  else mat oo (opt_matpos K (ui XOR 1) ui))"
  defines "entailed \<equiv>
             (if constyp lincons = ELINA_CONS_SUP
              then dbl_lt (dbl_add (dbl_twice a) m0) dbl_zero
              else dbl_le (dbl_add (dbl_twice a) m0) dbl_zero)
             \<and> (constyp lincons = ELINA_CONS_EQ \<longrightarrow> dbl_le (dbl_add (dbl_twice b) m1) dbl_zero)"
  assumes "o_closed oc = Some oo"
    and "constyp lincons \<in> {ELINA_CONS_SUPEQ, ELINA_CONS_SUP, ELINA_CONS_EQ}"
    and "opt_oct_uexpr_of_linexpr K (linexpr0 lincons) (o_intdim oc) (o_dim oc) = (u, a, b)"
    and "u_type u = OPT_UNARY"
  shows "value_of (opt_oct_sat_lincons_timing K man oc lincons) = Some entailed
       \<and> value_of (opt_oct_sat_lincons K man fl oc lincons) = Some entailed
       \<and> (\<not> is_dense oo \<and> find_cl (acl oo) (u_i u) = None \<longrightarrow> \<not> entailed)"
proof -
  have sel: "closed_or_m oc = Some oo"
    using assms(5) by (simp add: closed_or_m_def)
  have ty: "constyp lincons \<noteq> ELINA_CONS_EQMOD" "constyp lincons \<noteq> ELINA_CONS_DISEQ"
    using assms(6) by auto
  have inner: "value_of (opt_oct_sat_lincons K man f oc lincons) = Some entailed" for f
    unfolding sat_lincons_unary_result [OF sel ty assms(7,8)]
    by (simp add: entailed_def m0_def m1_def ui_def Let_def
        dbl_add_PInf_not_le dbl_add_PInf_not_lt)
  have sparse: "\<not> is_dense oo \<and> find_cl (acl oo) (u_i u) = None \<longrightarrow> \<not> entailed"
    by (simp add: entailed_def m0_def dbl_add_PInf_not_le dbl_add_PInf_not_lt)
  show ?thesis
    using inner sparse by (simp add: sat_lincons_timing_closed [OF assms(5)])
qed

text \<open>
  On \<open>1 \<le> X0 \<le> 3\<close>: \<open>X0 - 1 \<ge> 0\<close> is entailed and \<open>X0 - 1 > 0\<close> is not; with a sparse
  matrix whose partition is empty, \<open>X0\<close> is unconstrained and \<open>X0 - 1 \<ge> 0\<close> is not entailed.
\<close>

theorem sat_lincons_unary_witness:
  "o_closed (ex_oct None (Some (ex_mat True []))) = Some (ex_mat True [])
   \<and> value_of (opt_oct_sat_lincons_timing ex_kernels (ex_man 0)
        (ex_oct None (Some (ex_mat True []))) (ex_unary ELINA_CONS_SUPEQ 1 1 0)) = Some True
   \<and> value_of (opt_oct_sat_lincons_timing ex_kernels (ex_man 0)
        (ex_oct None (Some (ex_mat True []))) (ex_unary ELINA_CONS_SUP 1 1 0)) = Some False
   \<and> value_of (opt_oct_sat_lincons_timing ex_kernels (ex_man 0)
        (ex_oct None (Some (ex_mat False []))) (ex_unary ELINA_CONS_SUPEQ 1 1 0)) = Some False"
  using sat_lincons_unary [where K = ex_kernels and oc = "ex_oct None (Some (ex_mat True []))"
      and oo = "ex_mat True []" and lincons = "ex_unary ELINA_CONS_SUPEQ 1 1 0"
      and man = "ex_man 0" and fl = True]
    sat_lincons_unary [where K = ex_kernels and oc = "ex_oct None (Some (ex_mat True []))"
      and oo = "ex_mat True []" and lincons = "ex_unary ELINA_CONS_SUP 1 1 0"
      and man = "ex_man 0" and fl = True]
    sat_lincons_unary [where K = ex_kernels and oc = "ex_oct None (Some (ex_mat False []))"
      and oo = "ex_mat False []" and lincons = "ex_unary ELINA_CONS_SUPEQ 1 1 0"
      and man = "ex_man 0" and fl = True]
  by (simp add: ex_oct_def ex_mat_def ex_unary_def ex_kernels_def ex_man_def ex_matpos_def
      ex_buf_def dbl_zero_def find_cl_def)

text \<open>
  C4. For an octagon that is not bottom and a constraint of constant shape \<open>[-a, b] ~ 0\<close>,
  \<^verbatim>\<open>sat_lincons\<close> answers true if and only if the type is \<open>>=\<close> and \<open>a \<le> 0\<close>, or the type
  is \<open>>\<close> and \<open>a < 0\<close>, or the type is \<open>=\<close> and \<open>a = 0\<close> and \<open>b = 0\<close>; otherwise it answers
  false. This holds of the function \<^verbatim>\<open>opt_oct_sat_lincons\<close> on every octagon with a
  matrix, and of the entry point whenever the octagon still has a matrix after the closure
  step.
\<close>

theorem sat_lincons_zero:
  fixes K :: "'e kernels" and a b :: dbl and lincons :: "'e elina_lincons0_t"
  defines "c \<equiv> constyp lincons"
  defines "entailed \<equiv>
             (c = ELINA_CONS_SUPEQ \<and> dbl_le a dbl_zero)
             \<or> (c = ELINA_CONS_SUP \<and> dbl_lt a dbl_zero)
             \<or> (c = ELINA_CONS_EQ \<and> dbl_eq a dbl_zero \<and> dbl_eq b dbl_zero)"
  assumes "opt_oct_uexpr_of_linexpr K (linexpr0 lincons) (o_intdim oc) (o_dim oc) = (u, a, b)"
    and "u_type u = OPT_ZERO"
  shows "(closed_or_m oc \<noteq> None \<longrightarrow>
            value_of (opt_oct_sat_lincons K man fl oc lincons) = Some entailed)
       \<and> (closed_or_m (close_if_enabled K man oc) \<noteq> None \<longrightarrow>
            value_of (opt_oct_sat_lincons_timing K man oc lincons) = Some entailed)"
proof -
  have inner: "value_of (opt_oct_sat_lincons K man f oc' lincons) = Some entailed"
    if "closed_or_m oc' \<noteq> None" "o_intdim oc' = o_intdim oc" "o_dim oc' = o_dim oc" for f oc'
    using that assms(3,4)
    by (cases "constyp lincons")
      (auto simp: value_of_def opt_oct_sat_lincons_def Let_def entailed_def c_def)
  show ?thesis
    using inner [of oc fl] inner [of "close_if_enabled K man oc" opt_oct_init_from_manager]
    by (auto simp: value_of_def sat_lincons_timing_present option.map_comp comp_def
        case_prod_unfold)
qed

text \<open>
  The constants \<open>[0, 5]\<close>, \<open>[0, 0]\<close> and \<open>[1, 0]\<close> against each type, on \<open>1 \<le> X0 \<le> 3\<close>.
\<close>

theorem sat_lincons_zero_witness:
  "closed_or_m (ex_oct (Some (ex_mat True [])) None) \<noteq> None
   \<and> closed_or_m (close_if_enabled ex_kernels (ex_man 0) (ex_oct (Some (ex_mat True [])) None)) \<noteq> None
   \<and> value_of (opt_oct_sat_lincons_timing ex_kernels (ex_man 0)
        (ex_oct (Some (ex_mat True [])) None) (ex_zero ELINA_CONS_SUPEQ 0 5)) = Some True
   \<and> value_of (opt_oct_sat_lincons_timing ex_kernels (ex_man 0)
        (ex_oct (Some (ex_mat True [])) None) (ex_zero ELINA_CONS_SUP 0 5)) = Some False
   \<and> value_of (opt_oct_sat_lincons_timing ex_kernels (ex_man 0)
        (ex_oct (Some (ex_mat True [])) None) (ex_zero ELINA_CONS_EQ 0 5)) = Some False
   \<and> value_of (opt_oct_sat_lincons_timing ex_kernels (ex_man 0)
        (ex_oct (Some (ex_mat True [])) None) (ex_zero ELINA_CONS_EQ 0 0)) = Some True
   \<and> value_of (opt_oct_sat_lincons_timing ex_kernels (ex_man 0)
        (ex_oct (Some (ex_mat True [])) None) (ex_zero ELINA_CONS_DISEQ (- 1) 0)) = Some False"
proof -
  let ?oc = "ex_oct (Some (ex_mat True [])) None"
  have pres: "closed_or_m (close_if_enabled ex_kernels (ex_man 0) ?oc) \<noteq> None"
    by (simp add: close_if_enabled_def opt_oct_cache_closure_def ex_oct_def ex_man_def
        ex_kernels_def ex_closure_def ex_mat_def ex_buf_def ex_matpos_def dbl_zero_def
        closed_or_m_def)
  have pres0: "closed_or_m ?oc \<noteq> None"
    by (simp add: closed_or_m_def ex_oct_def)
  have cls: "opt_oct_uexpr_of_linexpr ex_kernels (linexpr0 (ex_zero c a b)) (o_intdim ?oc)
      (o_dim ?oc) = (\<lparr>u_type = OPT_ZERO, u_i = 0, u_j = 0, u_coef_i = 0, u_coef_j = 0\<rparr>,
        Fin a, Fin b)" for c a b
    by (simp add: ex_kernels_def ex_zero_def)
  have ty: "constyp (ex_zero c a b) = c" for c a b
    by (simp add: ex_zero_def)
  note r = sat_lincons_zero [where K = ex_kernels and man = "ex_man 0" and oc = ?oc
      and fl = True, OF cls, simplified ty]
  show ?thesis
    using pres pres0 r [of ELINA_CONS_SUPEQ 0 5] r [of ELINA_CONS_SUP 0 5]
      r [of ELINA_CONS_EQ 0 5] r [of ELINA_CONS_EQ 0 0] r [of ELINA_CONS_DISEQ "- 1" 0]
    by (simp add: dbl_zero_def dbl_eq_def)
qed

lemma close_if_enabled_bottom:
  "o_closed oc = None \<Longrightarrow> o_m oc = None \<Longrightarrow> close_if_enabled K man oc = oc"
  by (simp add: close_if_enabled_def opt_oct_cache_closure_def)

text \<open>
  C6, as stated, fails on the bottom octagon: with both matrices null the entry point
  answers true for a constraint of type \<open>EQMOD\<close>, and the function it guards,
  \<^verbatim>\<open>opt_oct_sat_lincons\<close>, cannot be called at all (its first statements read the matrix
  through a null pointer).
\<close>

theorem sat_lincons_eqmod_bottom_counterexample:
  "constyp (ex_unary ELINA_CONS_EQMOD 1 0 0) = ELINA_CONS_EQMOD
   \<and> value_of (opt_oct_sat_lincons_timing ex_kernels (ex_man 0) (ex_oct None None)
        (ex_unary ELINA_CONS_EQMOD 1 0 0)) = Some True
   \<and> opt_oct_sat_lincons ex_kernels (ex_man 0) True (ex_oct None None)
        (ex_unary ELINA_CONS_EQMOD 1 0 0) = None"
  by (simp add: value_of_def opt_oct_sat_lincons_timing_def opt_oct_sat_lincons_def
      close_if_enabled_def opt_oct_cache_closure_def closed_or_m_def ex_oct_def ex_man_def
      ex_unary_def opt_oct_init_from_manager_def)

text \<open>
  C6, amended. \<^verbatim>\<open>sat_lincons\<close> settles only the types \<open>=\<close>, \<open>>=\<close> and \<open>>\<close>. For a constraint
  of type \<open>EQMOD\<close> or \<open>DISEQ\<close> and every octagon that is not bottom, whatever its matrices
  hold, \<^verbatim>\<open>opt_oct_sat_lincons\<close> answers false and leaves \<open>flag_exact\<close> as it was; so does the
  entry point when the octagon still has a matrix after the closure step. On the bottom
  octagon the entry point answers true.
\<close>

theorem sat_lincons_skipped_types:
  fixes K :: "'e kernels" and lincons :: "'e elina_lincons0_t"
  assumes "constyp lincons = ELINA_CONS_EQMOD \<or> constyp lincons = ELINA_CONS_DISEQ"
  shows "(closed_or_m oc \<noteq> None \<longrightarrow>
            opt_oct_sat_lincons K man fl oc lincons = Some (False, fl))
       \<and> (closed_or_m (close_if_enabled K man oc) \<noteq> None \<longrightarrow>
            opt_oct_sat_lincons_timing K man oc lincons =
              Some (False, close_if_enabled K man oc, opt_oct_init_from_manager))
       \<and> (closed_or_m oc = None \<longrightarrow>
            value_of (opt_oct_sat_lincons_timing K man oc lincons) = Some True)"
proof -
  have inner: "opt_oct_sat_lincons K man f oc' lincons = Some (False, f)"
    if "closed_or_m oc' \<noteq> None" for f oc'
    using that assms by (auto simp: opt_oct_sat_lincons_def Let_def)
  have bot: "value_of (opt_oct_sat_lincons_timing K man oc lincons) = Some True"
    if "closed_or_m oc = None"
    using that
    by (simp add: closed_or_m_None value_of_def opt_oct_sat_lincons_timing_def
        close_if_enabled_bottom Let_def)
  show ?thesis
    using inner [of oc fl] inner [of "close_if_enabled K man oc" opt_oct_init_from_manager] bot
    by (auto simp: sat_lincons_timing_present)
qed

theorem sat_lincons_skipped_types_witness:
  "constyp (ex_unary ELINA_CONS_DISEQ 1 1 0) = ELINA_CONS_DISEQ
   \<and> closed_or_m (ex_oct None (Some (ex_mat True []))) \<noteq> None
   \<and> opt_oct_sat_lincons ex_kernels (ex_man 0) True (ex_oct None (Some (ex_mat True [])))
        (ex_unary ELINA_CONS_DISEQ 1 1 0) = Some (False, True)
   \<and> opt_oct_sat_lincons_timing ex_kernels (ex_man 0) (ex_oct None (Some (ex_mat True [])))
        (ex_unary ELINA_CONS_DISEQ 1 1 0)
       = Some (False, ex_oct None (Some (ex_mat True [])), True)"
proof -
  let ?oc = "ex_oct None (Some (ex_mat True []))"
  have ty: "constyp (ex_unary ELINA_CONS_DISEQ 1 1 0) = ELINA_CONS_EQMOD
      \<or> constyp (ex_unary ELINA_CONS_DISEQ 1 1 0) = ELINA_CONS_DISEQ"
    by (simp add: ex_unary_def)
  have cl: "close_if_enabled ex_kernels (ex_man 0) ?oc = ?oc"
    by (rule close_if_enabled_closed [of _ "ex_mat True []"]) (simp add: ex_oct_def)
  have pres: "closed_or_m ?oc \<noteq> None"
    by (simp add: closed_or_m_def ex_oct_def)
  show ?thesis
    using sat_lincons_skipped_types [OF ty, of ?oc ex_kernels "ex_man 0" True] pres cl
    by (simp add: ex_unary_def opt_oct_init_from_manager_def)
qed

subsection \<open>The bottom octagon and dimensions out of range\<close>

text \<open>
  C10. On the bottom octagon (both matrices null) \<^verbatim>\<open>opt_oct_sat_interval\<close> answers true for
  every dimension in range and every interval, the entry point of \<^verbatim>\<open>sat_lincons\<close> answers
  true for every constraint, and \<^verbatim>\<open>opt_oct_to_box\<close> returns the bottom interval at each of
  the \<open>dim\<close> dimensions.
\<close>

theorem bottom_queries:
  fixes K :: "'e kernels"
  assumes "o_m oc = None" and "o_closed oc = None"
  shows "(\<forall>d i. d < o_dim oc \<longrightarrow> fst (opt_oct_sat_interval K man oc d i) = True)
       \<and> (\<forall>lincons. value_of (opt_oct_sat_lincons_timing K man oc lincons) = Some True)
       \<and> value_of (opt_oct_to_box K man oc) = Some (replicate (o_dim oc) elina_interval_set_bottom)"
  using assms
  by (simp add: opt_oct_sat_interval_def opt_oct_sat_lincons_timing_def opt_oct_to_box_def
      value_of_def close_if_enabled_bottom closed_or_m_def Let_def map_replicate_const)

theorem bottom_queries_witness:
  "o_m (ex_oct None None) = None \<and> o_closed (ex_oct None None) = None
   \<and> fst (opt_oct_sat_interval ex_kernels (ex_man 0) (ex_oct None None) 0
        \<lparr>itv_inf = Fin 7, itv_sup = Fin 8\<rparr>) = True
   \<and> value_of (opt_oct_sat_lincons_timing ex_kernels (ex_man 0) (ex_oct None None)
        (ex_unary ELINA_CONS_SUP 1 1 0)) = Some True
   \<and> value_of (opt_oct_to_box ex_kernels (ex_man 0) (ex_oct None None))
       = Some [elina_interval_set_bottom]"
proof -
  have b: "o_m (ex_oct None None) = None" "o_closed (ex_oct None None) = None"
    and d: "(0::nat) < o_dim (ex_oct None None)" "o_dim (ex_oct None None) = 1"
    by (simp_all add: ex_oct_def)
  show ?thesis
    using bottom_queries [OF b, of ex_kernels "ex_man 0"] b d by simp
qed

text \<open>
  C9. For a dimension \<open>d \<ge> dim\<close>, \<^verbatim>\<open>opt_oct_bound_dimension\<close> returns \<^verbatim>\<open>NULL\<close>,
  \<^verbatim>\<open>opt_oct_sat_interval\<close> returns false and \<^verbatim>\<open>opt_oct_is_dimension_unconstrained\<close> returns
  false.
\<close>

theorem dimension_out_of_range:
  fixes K :: "'e kernels"
  assumes "d \<ge> o_dim oc"
  shows "fst (opt_oct_bound_dimension K man oc d) = None
       \<and> fst (opt_oct_sat_interval K man oc d i) = False
       \<and> opt_oct_is_dimension_unconstrained K man oc d = False"
  using assms
  by (simp add: opt_oct_bound_dimension_def opt_oct_sat_interval_def
      opt_oct_is_dimension_unconstrained_def Let_def)

text \<open>
  On a sparse one-variable octagon with an empty partition: dimension 1 is out of range,
  while dimension 0 is in range and unconstrained.
\<close>

theorem dimension_out_of_range_witness:
  "o_dim (ex_oct (Some (ex_mat False [])) None) \<le> 1
   \<and> fst (opt_oct_bound_dimension ex_kernels (ex_man 0) (ex_oct (Some (ex_mat False [])) None) 1)
       = None
   \<and> fst (opt_oct_sat_interval ex_kernels (ex_man 0) (ex_oct (Some (ex_mat False [])) None) 1
        elina_interval_set_top) = False
   \<and> opt_oct_is_dimension_unconstrained ex_kernels (ex_man 0)
        (ex_oct (Some (ex_mat False [])) None) 1 = False
   \<and> opt_oct_is_dimension_unconstrained ex_kernels (ex_man 0)
        (ex_oct (Some (ex_mat False [])) None) 0 = True"
proof -
  have d: "o_dim (ex_oct (Some (ex_mat False [])) None) \<le> 1"
    by (simp add: ex_oct_def)
  have u: "opt_oct_is_dimension_unconstrained ex_kernels (ex_man 0)
        (ex_oct (Some (ex_mat False [])) None) 0 = True"
    by (simp add: opt_oct_is_dimension_unconstrained_def closed_or_m_def ex_oct_def ex_mat_def
        find_cl_def)
  show ?thesis
    using dimension_out_of_range [OF d, of ex_kernels "ex_man 0" elina_interval_set_top] d u
    by simp
qed

subsection \<open>Comparison of octagons of different dimensions\<close>

text \<open>
  C3. When the two operands differ in \<open>dim\<close> or in \<open>intdim\<close>, \<^verbatim>\<open>opt_oct_is_leq\<close> and
  \<^verbatim>\<open>opt_oct_is_eq\<close> return false. The matrices are not inspected: the answer is the same
  whatever they hold, no closure is computed (the operands come back as they were, also
  when the manager asks for closure) and \<open>flag_exact\<close> keeps its entry value.
\<close>

theorem comparison_dimension_mismatch:
  fixes K :: "'e kernels"
  assumes "o_dim o1 \<noteq> o_dim o2 \<or> o_intdim o1 \<noteq> o_intdim o2"
  shows "opt_oct_is_leq K man o1 o2 = (False, o1, opt_oct_init_from_manager)
       \<and> opt_oct_is_eq K man o1 o2 = (False, o1, o2, opt_oct_init_from_manager)"
  using assms by (auto simp: opt_oct_is_leq_def opt_oct_is_eq_def Let_def)

text \<open>
  A bottom octagon of dimension 1 against one of dimension 2: false both ways, although
  bottom is included in every octagon of its own dimension.
\<close>

theorem comparison_dimension_mismatch_witness:
  "o_dim (ex_oct None None) \<noteq> o_dim ((ex_oct None None)\<lparr>o_dim := 2\<rparr>)
   \<and> opt_oct_is_leq ex_kernels (ex_man 0) (ex_oct None None) ((ex_oct None None)\<lparr>o_dim := 2\<rparr>)
       = (False, ex_oct None None, True)
   \<and> opt_oct_is_eq ex_kernels (ex_man 0) (ex_oct None None) ((ex_oct None None)\<lparr>o_dim := 2\<rparr>)
       = (False, ex_oct None None, (ex_oct None None)\<lparr>o_dim := 2\<rparr>, True)
   \<and> fst (opt_oct_is_leq ex_kernels (ex_man 0) (ex_oct None None) (ex_oct None None)) = True"
proof -
  have d: "o_dim (ex_oct None None) \<noteq> o_dim ((ex_oct None None)\<lparr>o_dim := 2\<rparr>)"
    by (simp add: ex_oct_def)
  then have h: "o_dim (ex_oct None None) \<noteq> o_dim ((ex_oct None None)\<lparr>o_dim := 2\<rparr>)
      \<or> o_intdim (ex_oct None None) \<noteq> o_intdim ((ex_oct None None)\<lparr>o_dim := 2\<rparr>)"
    by simp
  have same: "fst (opt_oct_is_leq ex_kernels (ex_man 0) (ex_oct None None) (ex_oct None None))
      = True"
    by (simp add: opt_oct_is_leq_def close_if_enabled_def opt_oct_cache_closure_def
        ex_oct_def ex_man_def Let_def)
  show ?thesis
    using comparison_dimension_mismatch [OF h, of ex_kernels "ex_man 0"] d same
    by (simp add: opt_oct_init_from_manager_def)
qed

subsection \<open>Projection on the variables\<close>

lemma box_of_comp_result:
  assumes "\<forall>i\<in>set c. i < length box"
  shows "\<exists>box'. box_of_comp K b c box = Some box' \<and> length box' = length box
     \<and> (\<forall>v<length box. box' ! v =
          (if v \<in> set c
           then opt_interval_of_bounds (b (opt_matpos K (2 * v) (2 * v + 1)))
                  (b (opt_matpos K (2 * v + 1) (2 * v))) True
           else box ! v))"
  using assms
proof (induction c arbitrary: box)
  case Nil
  then show ?case by simp
next
  case (Cons i1 c)
  let ?box1 = "box[i1 := opt_interval_of_bounds (b (opt_matpos K (2 * i1) (2 * i1 + 1)))
                           (b (opt_matpos K (2 * i1 + 1) (2 * i1))) True]"
  from Cons.prems have "\<forall>i\<in>set c. i < length ?box1" and i1: "i1 < length box"
    by simp_all
  from Cons.IH [OF this(1)] obtain box' where
    r: "box_of_comp K b c ?box1 = Some box'" "length box' = length ?box1"
      "\<forall>v<length ?box1. box' ! v =
          (if v \<in> set c
           then opt_interval_of_bounds (b (opt_matpos K (2 * v) (2 * v + 1)))
                  (b (opt_matpos K (2 * v + 1) (2 * v))) True
           else ?box1 ! v)"
    by blast
  show ?case
    using r i1 by (auto simp: nth_list_update)
qed

lemma box_of_acl_result:
  assumes "\<forall>cl\<in>set a. \<forall>i\<in>set cl. i < length box"
  shows "\<exists>box'. box_of_acl K b a box = Some box' \<and> length box' = length box
     \<and> (\<forall>v<length box. box' ! v =
          (if \<exists>cl\<in>set a. v \<in> set cl
           then opt_interval_of_bounds (b (opt_matpos K (2 * v) (2 * v + 1)))
                  (b (opt_matpos K (2 * v + 1) (2 * v))) True
           else box ! v))"
  using assms
proof (induction a arbitrary: box)
  case Nil
  then show ?case by simp
next
  case (Cons cl a)
  from Cons.prems have "\<forall>i\<in>set cl. i < length box"
    by simp
  from box_of_comp_result [OF this, of K b] obtain box1 where
    c: "box_of_comp K b cl box = Some box1" "length box1 = length box"
      "\<forall>v<length box. box1 ! v =
          (if v \<in> set cl
           then opt_interval_of_bounds (b (opt_matpos K (2 * v) (2 * v + 1)))
                  (b (opt_matpos K (2 * v + 1) (2 * v))) True
           else box ! v)"
    by blast
  from Cons.prems c(2) have "\<forall>cl\<in>set a. \<forall>i\<in>set cl. i < length box1"
    by simp
  from Cons.IH [OF this] obtain box' where
    r: "box_of_acl K b a box1 = Some box'" "length box' = length box1"
      "\<forall>v<length box1. box' ! v =
          (if \<exists>cl\<in>set a. v \<in> set cl
           then opt_interval_of_bounds (b (opt_matpos K (2 * v) (2 * v + 1)))
                  (b (opt_matpos K (2 * v + 1) (2 * v))) True
           else box1 ! v)"
    by blast
  show ?case
    using c r by auto
qed

lemma find_cl_None: "find_cl a v = None \<longleftrightarrow> \<not> (\<exists>cl\<in>set a. v \<in> set cl)"
  by (auto simp: find_cl_def find_None_iff)

lemma to_box_present:
  fixes K :: "'e kernels"
  assumes "closed_or_m (close_if_enabled K man oc) = Some oo"
    and "is_dense oo \<or> (\<forall>cl\<in>set (acl oo). \<forall>i\<in>set cl. i < o_dim oc)"
  shows "\<exists>box. opt_oct_to_box K man oc =
             Some (box, close_if_enabled K man oc, to_box_flags man (close_if_enabled K man oc))
     \<and> length box = o_dim oc
     \<and> (\<forall>v<o_dim oc. box ! v =
          (if \<not> is_dense oo \<and> find_cl (acl oo) v = None then elina_interval_set_top
           else opt_interval_of_bounds (mat oo (opt_matpos K (2 * v) (2 * v + 1)))
                  (mat oo (opt_matpos K (2 * v + 1) (2 * v))) True))"
proof (cases "is_dense oo")
  case True
  then show ?thesis
    using assms(1) by (simp add: opt_oct_to_box_def Let_def)
next
  case False
  let ?top = "map (\<lambda>i. elina_interval_set_top) [0..<o_dim oc]"
  from False assms(2) have "\<forall>cl\<in>set (acl oo). \<forall>i\<in>set cl. i < length ?top"
    by simp
  from box_of_acl_result [OF this, of K "mat oo"] obtain box where
    r: "box_of_acl K (mat oo) (acl oo) ?top = Some box" "length box = length ?top"
      "\<forall>v<length ?top. box ! v =
          (if \<exists>cl\<in>set (acl oo). v \<in> set cl
           then opt_interval_of_bounds (mat oo (opt_matpos K (2 * v) (2 * v + 1)))
                  (mat oo (opt_matpos K (2 * v + 1) (2 * v))) True
           else ?top ! v)"
    by blast
  show ?thesis
    using False assms(1) r
    by (auto simp: opt_oct_to_box_def Let_def find_cl_None)
qed

text \<open>
  C2. Let \<open>oc'\<close> be the octagon as the closure step of \<^verbatim>\<open>opt_oct_to_box\<close> leaves it (the
  octagon itself when the manager asks for no closure or a closed form is already cached),
  and let it be non-empty, with matrix \<open>oo\<close>: the cached closed matrix if present, else
  \<open>m\<close>. With every member of the partition of a sparse \<open>oo\<close> below \<open>dim\<close>, the call returns
  an array of \<open>dim\<close> intervals, and the interval of each variable \<open>v\<close> is
  \<open>[-m[2v, 2v+1]/2, m[2v+1, 2v]/2]\<close> read from \<open>oo\<close>, or the top interval \<open>[-oo, +oo]\<close>
  when \<open>oo\<close> is sparse and \<open>v\<close> belongs to no component.
\<close>

theorem to_box_intervals:
  fixes K :: "'e kernels" and man :: manager and oc :: opt_oct_t
  defines "oc' \<equiv> close_if_enabled K man oc"
  assumes "closed_or_m oc' = Some oo"
    and "is_dense oo \<or> (\<forall>cl\<in>set (acl oo). \<forall>i\<in>set cl. i < o_dim oc)"
  shows "\<exists>box. value_of (opt_oct_to_box K man oc) = Some box
     \<and> length box = o_dim oc
     \<and> (\<forall>v<o_dim oc. box ! v =
          (if \<not> is_dense oo \<and> find_cl (acl oo) v = None
           then \<lparr>itv_inf = MInf, itv_sup = PInf\<rparr>
           else \<lparr>itv_inf = dbl_neg (dbl_half (mat oo (opt_matpos K (2 * v) (2 * v + 1)))),
                 itv_sup = dbl_half (mat oo (opt_matpos K (2 * v + 1) (2 * v)))\<rparr>))
     \<and> (case o_closed oc' of Some c \<Rightarrow> oo = c | None \<Rightarrow> o_m oc' = Some oo)
     \<and> (algorithm man < 0 \<or> o_closed oc \<noteq> None \<longrightarrow> oc' = oc)"
proof -
  from to_box_present [OF assms(2) [unfolded oc'_def] assms(3)] obtain box where
    "opt_oct_to_box K man oc =
       Some (box, close_if_enabled K man oc, to_box_flags man (close_if_enabled K man oc))"
    "length box = o_dim oc"
    "\<forall>v<o_dim oc. box ! v =
          (if \<not> is_dense oo \<and> find_cl (acl oo) v = None then elina_interval_set_top
           else opt_interval_of_bounds (mat oo (opt_matpos K (2 * v) (2 * v + 1)))
                  (mat oo (opt_matpos K (2 * v + 1) (2 * v))) True)"
    by blast
  then have "value_of (opt_oct_to_box K man oc) = Some box \<and> length box = o_dim oc
     \<and> (\<forall>v<o_dim oc. box ! v =
          (if \<not> is_dense oo \<and> find_cl (acl oo) v = None
           then \<lparr>itv_inf = MInf, itv_sup = PInf\<rparr>
           else \<lparr>itv_inf = dbl_neg (dbl_half (mat oo (opt_matpos K (2 * v) (2 * v + 1)))),
                 itv_sup = dbl_half (mat oo (opt_matpos K (2 * v + 1) (2 * v)))\<rparr>))"
    by (simp add: value_of_def elina_interval_set_top_def opt_interval_of_bounds_def)
  moreover have "case o_closed oc' of Some c \<Rightarrow> oo = c | None \<Rightarrow> o_m oc' = Some oo"
    using assms(2) by (simp add: closed_or_m_def split: option.splits)
  moreover have "algorithm man < 0 \<or> o_closed oc \<noteq> None \<longrightarrow> oc' = oc"
    by (auto simp: oc'_def close_if_enabled_def cache_closure_closed)
  ultimately show ?thesis
    by blast
qed

text \<open>
  On \<open>1 \<le> X0 \<le> 3\<close> held in a sparse matrix: \<open>[1, 3]\<close> when the variable is in a component,
  top when the partition is empty.
\<close>

theorem to_box_intervals_witness:
  "closed_or_m (close_if_enabled ex_kernels (ex_man 0) (ex_oct (Some (ex_mat False [[0]])) None))
     = Some (ex_mat False [[0]])
   \<and> value_of (opt_oct_to_box ex_kernels (ex_man 0) (ex_oct (Some (ex_mat False [[0]])) None))
       = Some [\<lparr>itv_inf = Fin 1, itv_sup = Fin 3\<rparr>]
   \<and> value_of (opt_oct_to_box ex_kernels (ex_man (- 1)) (ex_oct (Some (ex_mat False [])) None))
       = Some [\<lparr>itv_inf = MInf, itv_sup = PInf\<rparr>]"
proof -
  let ?o1 = "ex_oct (Some (ex_mat False [[0]])) None"
  let ?o2 = "ex_oct (Some (ex_mat False [])) None"
  have c1: "close_if_enabled ex_kernels (ex_man 0) ?o1 = ?o1\<lparr>o_closed := Some (ex_mat False [[0]])\<rparr>"
    by (simp add: close_if_enabled_def opt_oct_cache_closure_def ex_oct_def ex_man_def
        ex_kernels_def ex_closure_def ex_mat_def ex_buf_def ex_matpos_def dbl_zero_def)
  have s1: "closed_or_m (close_if_enabled ex_kernels (ex_man 0) ?o1) = Some (ex_mat False [[0]])"
    by (simp add: c1 closed_or_m_def)
  have s2: "closed_or_m (close_if_enabled ex_kernels (ex_man (- 1)) ?o2) = Some (ex_mat False [])"
    by (simp add: close_if_enabled_def closed_or_m_def ex_oct_def ex_man_def)
  have w1: "is_dense (ex_mat False [[0]])
      \<or> (\<forall>cl\<in>set (acl (ex_mat False [[0]])). \<forall>i\<in>set cl. i < o_dim ?o1)"
    by (simp add: ex_mat_def ex_oct_def)
  have w2: "is_dense (ex_mat False [])
      \<or> (\<forall>cl\<in>set (acl (ex_mat False [])). \<forall>i\<in>set cl. i < o_dim ?o2)"
    by (simp add: ex_mat_def ex_oct_def)
  have one: "xs = [xs ! 0]" if "length xs = 1" for xs :: "elina_interval_t list"
    using that by (cases xs) simp_all
  from to_box_intervals [OF s1 w1] obtain b1 where
    b1: "value_of (opt_oct_to_box ex_kernels (ex_man 0) ?o1) = Some b1" "length b1 = 1"
      "b1 ! 0 = \<lparr>itv_inf = Fin 1, itv_sup = Fin 3\<rparr>"
    by (auto simp: ex_oct_def ex_mat_def ex_buf_def ex_kernels_def ex_matpos_def find_cl_def)
  from to_box_intervals [OF s2 w2] obtain b2 where
    b2: "value_of (opt_oct_to_box ex_kernels (ex_man (- 1)) ?o2) = Some b2" "length b2 = 1"
      "b2 ! 0 = \<lparr>itv_inf = MInf, itv_sup = PInf\<rparr>"
    by (auto simp: ex_oct_def ex_mat_def find_cl_def)
  show ?thesis
    using s1 b1 b2 one [of b1] one [of b2] by simp
qed

text \<open>
  C7, as stated, fails: on a non-empty octagon whose closed form is cached, with no integer
  dimension and no conversion loss, \<open>flag_exact\<close> is false after \<^verbatim>\<open>opt_oct_to_box\<close>. The
  function clears the flag before it looks at any of these conditions (line 190).
\<close>

theorem to_box_flag_exact_counterexample:
  "o_closed (ex_oct None (Some (ex_mat True []))) = Some (ex_mat True [])
   \<and> o_intdim (ex_oct None (Some (ex_mat True []))) = 0
   \<and> conv (ex_man 0) = False \<and> num_incomplete (ex_man 0) = False
   \<and> value_of (opt_oct_to_box ex_kernels (ex_man 0) (ex_oct None (Some (ex_mat True []))))
       = Some [\<lparr>itv_inf = Fin 1, itv_sup = Fin 3\<rparr>]
   \<and> flag_exact_of (opt_oct_to_box ex_kernels (ex_man 0) (ex_oct None (Some (ex_mat True []))))
       = Some False"
  by (simp add: value_of_def flag_exact_of_def opt_oct_to_box_def close_if_enabled_def
      opt_oct_cache_closure_def closed_or_m_def to_box_flags_def ex_oct_def ex_man_def
      ex_mat_def ex_buf_def ex_kernels_def ex_matpos_def opt_interval_of_bounds_def Let_def)

text \<open>
  C7, amended. After \<^verbatim>\<open>opt_oct_to_box\<close> the flag \<open>flag_exact\<close> is false for every octagon
  that is non-empty after the closure step, whether or not its closed form is cached, and
  true for an empty one: a box is not an exact image of a non-empty octagon.
\<close>

theorem to_box_flag_exact:
  fixes K :: "'e kernels" and man :: manager and oc :: opt_oct_t
  defines "oc' \<equiv> close_if_enabled K man oc"
  assumes "is_dense oo \<or> (\<forall>cl\<in>set (acl oo). \<forall>i\<in>set cl. i < o_dim oc)"
  shows "(closed_or_m oc' = Some oo \<longrightarrow>
            flag_exact_of (opt_oct_to_box K man oc) = Some False)
       \<and> (closed_or_m oc' = None \<longrightarrow>
            flag_exact_of (opt_oct_to_box K man oc) = Some True)"
proof -
  have fl: "to_box_flags man x = False" for x
    by (simp add: to_box_flags_def flag_algo_def flag_conv_def flag_incomplete_def)
  have "flag_exact_of (opt_oct_to_box K man oc) = Some False"
    if "closed_or_m oc' = Some oo"
    using to_box_present [OF that [unfolded oc'_def] assms(2)] by (auto simp: fl flag_exact_of_def)
  moreover have "flag_exact_of (opt_oct_to_box K man oc) = Some True"
    if "closed_or_m oc' = None"
    using that by (simp add: oc'_def flag_exact_of_def opt_oct_to_box_def Let_def
        opt_oct_init_from_manager_def)
  ultimately show ?thesis
    by blast
qed

theorem to_box_flag_exact_witness:
  "closed_or_m (close_if_enabled ex_kernels (ex_man 0) (ex_oct None (Some (ex_mat False [[0]]))))
     = Some (ex_mat False [[0]])
   \<and> flag_exact_of (opt_oct_to_box ex_kernels (ex_man 0)
        (ex_oct None (Some (ex_mat False [[0]])))) = Some False
   \<and> closed_or_m (close_if_enabled ex_kernels (ex_man 0) (ex_oct None None)) = None
   \<and> flag_exact_of (opt_oct_to_box ex_kernels (ex_man 0) (ex_oct None None)) = Some True"
proof -
  let ?o1 = "ex_oct None (Some (ex_mat False [[0]]))"
  have s1: "closed_or_m (close_if_enabled ex_kernels (ex_man 0) ?o1) = Some (ex_mat False [[0]])"
    by (simp add: close_if_enabled_def opt_oct_cache_closure_def closed_or_m_def ex_oct_def)
  have s2: "closed_or_m (close_if_enabled ex_kernels (ex_man 0) (ex_oct None None)) = None"
    by (simp add: close_if_enabled_def opt_oct_cache_closure_def closed_or_m_def ex_oct_def)
  have w1: "is_dense (ex_mat False [[0]])
      \<or> (\<forall>cl\<in>set (acl (ex_mat False [[0]])). \<forall>i\<in>set cl. i < o_dim ?o1)"
    by (simp add: ex_mat_def ex_oct_def)
  have w2: "is_dense (ex_mat False [[0]])
      \<or> (\<forall>cl\<in>set (acl (ex_mat False [[0]])). \<forall>i\<in>set cl. i < o_dim (ex_oct None None))"
    by (simp add: ex_mat_def ex_oct_def)
  show ?thesis
    using to_box_flag_exact [OF w1, of ex_kernels "ex_man 0"]
      to_box_flag_exact [OF w2, of ex_kernels "ex_man 0"] s1 s2
    by simp
qed

subsection \<open>Two reads of the same dimension\<close>

lemma cache_closure_idem:
  "opt_oct_cache_closure K (opt_oct_cache_closure K oc) = opt_oct_cache_closure K oc"
  by (simp add: opt_oct_cache_closure_def split: option.splits prod.splits bool.splits)

lemma close_if_enabled_idem:
  "close_if_enabled K man (close_if_enabled K man oc) = close_if_enabled K man oc"
  by (simp add: close_if_enabled_def cache_closure_idem)

lemma bound_dimension_state:
  "d < o_dim oc \<Longrightarrow> fst (snd (opt_oct_bound_dimension K man oc d)) = close_if_enabled K man oc"
  by (simp add: opt_oct_bound_dimension_def Let_def split: option.splits)

lemma bound_dimension_after_closure:
  "opt_oct_bound_dimension K man (close_if_enabled K man oc) d =
   opt_oct_bound_dimension K man oc d" if "d < o_dim oc"
  using that by (simp add: opt_oct_bound_dimension_def close_if_enabled_idem Let_def)

text \<open>
  C8. For a dimension \<open>d < dim\<close> and a fixed manager, two consecutive calls of
  \<^verbatim>\<open>opt_oct_bound_dimension\<close> return the same interval, and it is an interval, not
  \<^verbatim>\<open>NULL\<close>. The first call leaves the octagon as the closure step made it (it may have
  cached the closed form, or found the octagon empty); the second call reads that octagon
  and leaves it unchanged. This holds for every closure kernel.
\<close>

theorem bound_dimension_twice:
  fixes K :: "'e kernels" and man :: manager and oc :: opt_oct_t and d :: nat
  defines "first \<equiv> opt_oct_bound_dimension K man oc d"
  defines "second \<equiv> opt_oct_bound_dimension K man (fst (snd first)) d"
  assumes "d < o_dim oc"
  shows "fst second = fst first \<and> fst first \<noteq> None
       \<and> fst (snd second) = fst (snd first)
       \<and> fst (snd first) = close_if_enabled K man oc"
proof -
  have st: "fst (snd first) = close_if_enabled K man oc"
    unfolding first_def by (rule bound_dimension_state [OF assms(3)])
  have "second = first"
    unfolding second_def st unfolding first_def
    by (rule bound_dimension_after_closure [OF assms(3)])
  moreover have "fst first \<noteq> None"
    using assms(3) by (simp add: first_def opt_oct_bound_dimension_def Let_def split: option.splits)
  ultimately show ?thesis
    using st by simp
qed

text \<open>
  With closure enabled, the first read of \<open>1 \<le> X0 \<le> 3\<close> caches the closed form and returns
  \<open>[1, 3]\<close>; the read of the octagon it leaves returns \<open>[1, 3]\<close> again.
\<close>

theorem bound_dimension_twice_witness:
  "(0::nat) < o_dim (ex_oct (Some (ex_mat True [])) None)
   \<and> opt_oct_bound_dimension ex_kernels (ex_man 0) (ex_oct (Some (ex_mat True [])) None) 0
       = (Some \<lparr>itv_inf = Fin 1, itv_sup = Fin 3\<rparr>,
          ex_oct (Some (ex_mat True [])) (Some (ex_mat True [])), True)
   \<and> fst (opt_oct_bound_dimension ex_kernels (ex_man 0)
            (ex_oct (Some (ex_mat True [])) (Some (ex_mat True []))) 0)
       = Some \<lparr>itv_inf = Fin 1, itv_sup = Fin 3\<rparr>"
proof -
  let ?oc = "ex_oct (Some (ex_mat True [])) None"
  have d: "(0::nat) < o_dim ?oc"
    by (simp add: ex_oct_def)
  have first: "opt_oct_bound_dimension ex_kernels (ex_man 0) ?oc 0
       = (Some \<lparr>itv_inf = Fin 1, itv_sup = Fin 3\<rparr>,
          ex_oct (Some (ex_mat True [])) (Some (ex_mat True [])), True)"
    by (simp add: opt_oct_bound_dimension_def close_if_enabled_def opt_oct_cache_closure_def
        interval_of_dim_def opt_interval_of_bounds_def opt_oct_init_from_manager_def
        ex_oct_def ex_man_def ex_kernels_def ex_closure_def ex_mat_def ex_buf_def ex_matpos_def
        dbl_zero_def Let_def)
  show ?thesis
    using conjunct1 [OF bound_dimension_twice [OF d, of ex_kernels "ex_man 0"]]
    unfolding first by (simp add: d)
qed

subsection \<open>Top\<close>

text \<open>
  \<^verbatim>\<open>check_trivial_relation\<close> accepts the block of two variables exactly when its four
  entries are the trivial ones.
\<close>

lemma check_trivial_relation_entries:
  "check_trivial_relation K b i j \<longleftrightarrow>
     b (opt_matpos2 K (2 * i) (2 * j)) = trivial_entry (2 * i) (2 * j)
     \<and> b (opt_matpos2 K (2 * i + 1) (2 * j + 1)) = trivial_entry (2 * i + 1) (2 * j + 1)
     \<and> b (opt_matpos2 K (2 * i) (2 * j + 1)) = trivial_entry (2 * i) (2 * j + 1)
     \<and> b (opt_matpos2 K (2 * i + 1) (2 * j)) = trivial_entry (2 * i + 1) (2 * j)"
proof -
  have "2 * i \<noteq> 2 * j + 1" "2 * i + 1 \<noteq> 2 * j"
    by presburger+
  then show ?thesis
    by (auto simp: check_trivial_relation_def trivial_entry_def Let_def)
qed

text \<open>
  The blocks \<open>(p, q)\<close>, \<open>q \<le> p < n\<close>, cover the stored entries \<open>(i, j)\<close>, \<open>j \<le> i|1\<close>, of the
  \<open>2n\<close> rows, so that \<^verbatim>\<open>is_top_half\<close> is a statement on the stored entries.
\<close>

lemma or_1_nat:
  "(2 * p) OR (1::nat) = 2 * p + 1" "(2 * p + 1) OR (1::nat) = 2 * p + 1"
  unfolding or_one_eq by simp_all

lemma or_1_Suc: "(2 * p) OR Suc 0 = Suc (2 * p)" "Suc (2 * p) OR Suc 0 = Suc (2 * p)"
  using or_1_nat [of p] by simp_all

lemma or_1_le: "i OR (1::nat) \<le> 2 * (i div 2) + 1"
  unfolding or_one_eq by (cases "even i"; simp; presburger)

lemma is_top_half_blocks:
  "is_top_half K oo n \<longleftrightarrow>
     (\<forall>p<n. \<forall>q\<le>p. is_dense oo \<or> is_connected (acl oo) p q \<longrightarrow>
        check_trivial_relation K (mat oo) p q)"
  unfolding is_top_half_def list_all_iff
  by (simp only: set_upt atLeastLessThan_iff Ball_def less_Suc_eq_le le0 simp_thms
      if_bool_eq_conj)

text \<open>The four entries of a block are stored entries of the half-matrix.\<close>

lemma block_entries:
  assumes "q \<le> p"
  shows "check_trivial_relation K b p q \<longleftrightarrow>
     (\<forall>i\<in>{2 * p, 2 * p + 1}. \<forall>j\<in>{2 * q, 2 * q + 1}.
        b (opt_matpos K i j) = (if i = j then Fin 0 else PInf))"
proof -
  have le: "2 * q \<le> 2 * p OR 1" "2 * q + 1 \<le> 2 * p OR 1"
    "2 * q \<le> (2 * p + 1) OR 1" "2 * q + 1 \<le> (2 * p + 1) OR 1"
    using assms unfolding or_1_nat by simp_all
  have ne: "2 * p \<noteq> 2 * q + 1" "2 * p + 1 \<noteq> 2 * q"
    by presburger+
  have "check_trivial_relation K b p q \<longleftrightarrow>
     b (opt_matpos K (2 * p) (2 * q)) = (if p = q then Fin 0 else PInf)
     \<and> b (opt_matpos K (2 * p + 1) (2 * q + 1)) = (if p = q then Fin 0 else PInf)
     \<and> b (opt_matpos K (2 * p) (2 * q + 1)) = PInf
     \<and> b (opt_matpos K (2 * p + 1) (2 * q)) = PInf"
    unfolding check_trivial_relation_entries opt_matpos2_def trivial_entry_def
    using le ne by (simp only: if_True if_False) simp
  also have "\<dots> \<longleftrightarrow> (\<forall>i\<in>{2 * p, 2 * p + 1}. \<forall>j\<in>{2 * q, 2 * q + 1}.
        b (opt_matpos K i j) = (if i = j then Fin 0 else PInf))"
    using ne by auto
  finally show ?thesis .
qed

lemma is_top_half_entries:
  "is_top_half K oo n \<longleftrightarrow>
     (\<forall>i<2 * n. \<forall>j\<le>i OR 1.
         is_dense oo \<or> is_connected (acl oo) (i div 2) (j div 2) \<longrightarrow>
         mat oo (opt_matpos K i j) = (if i = j then Fin 0 else PInf))"
  (is "?L \<longleftrightarrow> ?R")
proof
  assume L: ?L
  show ?R
  proof (intro allI impI)
    fix i j
    assume i: "i < 2 * n" and j: "j \<le> i OR 1"
      and g: "is_dense oo \<or> is_connected (acl oo) (i div 2) (j div 2)"
    have p: "i div 2 < n" and q: "j div 2 \<le> i div 2"
      using i j or_1_le [of i] by presburger+
    from L p q g have "check_trivial_relation K (mat oo) (i div 2) (j div 2)"
      unfolding is_top_half_blocks by blast
    then have blk: "\<forall>i'\<in>{2 * (i div 2), 2 * (i div 2) + 1}.
        \<forall>j'\<in>{2 * (j div 2), 2 * (j div 2) + 1}.
          mat oo (opt_matpos K i' j') = (if i' = j' then Fin 0 else PInf)"
      by (simp only: block_entries [OF q])
    have "i \<in> {2 * (i div 2), 2 * (i div 2) + 1}" "j \<in> {2 * (j div 2), 2 * (j div 2) + 1}"
      by (simp_all) presburger+
    with blk show "mat oo (opt_matpos K i j) = (if i = j then Fin 0 else PInf)"
      by blast
  qed
next
  assume R: ?R
  show ?L
    unfolding is_top_half_blocks
  proof (intro allI impI)
    fix p q
    assume p: "p < n" and q: "q \<le> p"
      and g: "is_dense oo \<or> is_connected (acl oo) p q"
    have "mat oo (opt_matpos K i j) = (if i = j then Fin 0 else PInf)"
      if "i \<in> {2 * p, 2 * p + 1}" "j \<in> {2 * q, 2 * q + 1}" for i j
    proof -
      have "i < 2 * n" "j \<le> i OR 1" "i div 2 = p" "j div 2 = q"
        using that p q by (auto simp: or_1_Suc)
      with R g show ?thesis
        by blast
    qed
    then show "check_trivial_relation K (mat oo) p q"
      by (simp only: block_entries [OF q]) blast
  qed
qed

text \<open>
  C5, as stated, fails on a sparse matrix. With an empty partition \<^verbatim>\<open>opt_oct_is_top\<close>
  returns true whatever the buffer holds: here the stored off-diagonal entry \<open>(0,1)\<close> is
  \<open>-2\<close>, not \<open>+oo\<close>.
\<close>

theorem is_top_sparse_counterexample:
  "o_m (ex_oct (Some (ex_mat False [])) None) = Some (ex_mat False [])
   \<and> opt_oct_is_top ex_kernels (ex_man 0) (ex_oct (Some (ex_mat False [])) None) = True
   \<and> mat (ex_mat False []) (opt_matpos ex_kernels 0 1) = Fin (- 2)
   \<and> mat (ex_mat False []) (opt_matpos ex_kernels 0 1) \<noteq> PInf"
proof -
  have "opt_oct_is_top ex_kernels (ex_man 0) (ex_oct (Some (ex_mat False [])) None)"
    by code_simp
  moreover have "mat (ex_mat False []) (opt_matpos ex_kernels 0 1) = Fin (- 2)"
    by (simp add: ex_mat_def ex_kernels_def ex_matpos_def ex_buf_def)
  ultimately show ?thesis
    by (simp add: ex_oct_def)
qed

text \<open>
  C5, amended. \<^verbatim>\<open>opt_oct_is_top\<close> looks at \<open>m\<close> if present, else at \<open>closed\<close>, and returns
  false for the bottom value, which has neither. Otherwise it returns true if and only if
  every entry of the half-matrix (\<open>j \<le> i|1\<close> in each of the \<open>2 dim\<close> rows) that counts is
  trivial, 0 on the diagonal and \<open>+oo\<close> off it: in a dense matrix every entry counts, in a
  sparse one only the entries between two variables of the same component, so that an
  empty partition suffices.
\<close>

theorem is_top_trivial_matrix:
  fixes K :: "'e kernels" and oc :: opt_oct_t
  defines "sel \<equiv> (case o_m oc of Some mm \<Rightarrow> Some mm | None \<Rightarrow> o_closed oc)"
  shows "opt_oct_is_top K man oc =
           (case sel of
              None \<Rightarrow> False
            | Some mm \<Rightarrow>
                (\<forall>i<2 * o_dim oc. \<forall>j\<le>i OR 1.
                   is_dense mm \<or> is_connected (acl mm) (i div 2) (j div 2) \<longrightarrow>
                   mat mm (opt_matpos K i j) = (if i = j then Fin 0 else PInf)))
       \<and> (o_m oc = None \<and> o_closed oc = None \<longrightarrow> \<not> opt_oct_is_top K man oc)"
  by (simp add: opt_oct_is_top_def sel_def is_top_half_entries split: option.splits)

text \<open>
  Top: the dense matrix whose two bounds are \<open>+oo\<close>. Not top: \<open>1 \<le> X0 \<le> 3\<close> held in a dense
  matrix, or in a sparse one with the variable in a component, and bottom.
\<close>

theorem is_top_trivial_matrix_witness:
  "opt_oct_is_top ex_kernels (ex_man 0)
        (ex_oct None (Some \<lparr>mat = ex_buf PInf PInf, is_dense = True, acl = []\<rparr>)) = True
   \<and> opt_oct_is_top ex_kernels (ex_man 0) (ex_oct (Some (ex_mat True [])) None) = False
   \<and> opt_oct_is_top ex_kernels (ex_man 0) (ex_oct (Some (ex_mat False [[0]])) None) = False
   \<and> opt_oct_is_top ex_kernels (ex_man 0) (ex_oct None None) = False"
proof -
  let ?oc = "ex_oct (Some (ex_mat True [])) None"
  have dense: "\<not> opt_oct_is_top ex_kernels (ex_man 0) ?oc"
  proof
    assume "opt_oct_is_top ex_kernels (ex_man 0) ?oc"
    with conjunct1 [OF is_top_trivial_matrix [of ex_kernels "ex_man 0" ?oc]]
    have all: "\<forall>i<2 * 1. \<forall>j\<le>i OR 1. is_dense (ex_mat True []) \<or>
        is_connected (acl (ex_mat True [])) (i div 2) (j div 2) \<longrightarrow>
        mat (ex_mat True []) (opt_matpos ex_kernels i j) = (if i = j then Fin 0 else PInf)"
      by (simp add: ex_oct_def)
    have "(0::nat) < 2 * 1" "(1::nat) \<le> 0 OR 1" "is_dense (ex_mat True [])"
      by (simp_all add: ex_mat_def)
    with all have "mat (ex_mat True []) (opt_matpos ex_kernels 0 1) = PInf"
      by fastforce
    then show False
      by (simp add: ex_mat_def ex_kernels_def ex_matpos_def ex_buf_def)
  qed
  have bot: "\<not> opt_oct_is_top ex_kernels (ex_man 0) (ex_oct None None)"
    using is_top_trivial_matrix [of ex_kernels "ex_man 0" "ex_oct None None"]
    by (simp add: ex_oct_def)
  have sparse: "\<not> opt_oct_is_top ex_kernels (ex_man 0)
      (ex_oct (Some (ex_mat False [[0]])) None)"
    by code_simp
  have dense_top: "opt_oct_is_top ex_kernels (ex_man 0)
        (ex_oct None (Some \<lparr>mat = ex_buf PInf PInf, is_dense = True, acl = []\<rparr>))"
    by code_simp
  show ?thesis
    using dense sparse bot dense_top by simp
qed

end
